theory Spec2Isabelle
  imports Complex_Main "HOL-Library.AList" "HOL-Library.Log_Nat"
begin

section \<open>Python values used by the automation engine\<close>

text \<open>
  The engine (\<^verbatim>\<open>backend/automation_engine.py\<close>) receives triggers, actions and
  contexts as untyped dictionaries. Their contents are modelled by \<open>pyval\<close>; a \<open>dict\<close>
  with string keys is an association list in which the first binding of a key counts.
  Floats do not occur among the dictionary values modelled here.
\<close>

datatype pyval =
    PNone
  | PBool bool
  | PInt int
  | PStr string
  | PList "pyval list"
  | PDict "(string \<times> pyval) list"

type_synonym pydict = "(string \<times> pyval) list"

text \<open>
  Exceptions (all of them subclasses of \<^verbatim>\<open>Exception\<close>). \<open>KeyError\<close> carries the missing
  key, \<open>ValueError\<close> the value an enum rejected, \<open>Raised\<close> is any other exception, as
  a service or \<^verbatim>\<open>time.sleep\<close> may raise, with its message.
\<close>

datatype exn =
    KeyError string
  | ValueError pyval
  | TypeError
  | AttributeError
  | Raised string

text \<open>\<^verbatim>\<open>d[k]\<close> and \<^verbatim>\<open>d.get(k, default)\<close> on a \<^verbatim>\<open>Dict\<close>.\<close>

definition dict_getitem :: "pydict \<Rightarrow> string \<Rightarrow> exn + pyval" where
  "dict_getitem d k = (case map_of d k of None \<Rightarrow> Inl (KeyError k) | Some v \<Rightarrow> Inr v)"

definition dict_get :: "pydict \<Rightarrow> string \<Rightarrow> pyval \<Rightarrow> pyval" where
  "dict_get d k dflt = (case map_of d k of None \<Rightarrow> dflt | Some v \<Rightarrow> v)"

text \<open>
  The same two operations on a value of type \<^verbatim>\<open>Any\<close>: subscripting with a string
  key raises \<^verbatim>\<open>TypeError\<close> on everything but a dict, and only a dict has \<^verbatim>\<open>get\<close>.
\<close>

fun getitem :: "pyval \<Rightarrow> string \<Rightarrow> exn + pyval" where
  "getitem (PDict d) k = dict_getitem d k"
| "getitem v k = Inl TypeError"

fun get_method :: "pyval \<Rightarrow> string \<Rightarrow> pyval \<Rightarrow> exn + pyval" where
  "get_method (PDict d) k dflt = Inr (dict_get d k dflt)"
| "get_method v k dflt = Inl AttributeError"

text \<open>Truth value of an object, as \<^verbatim>\<open>not x\<close> tests it.\<close>

fun truthy :: "pyval \<Rightarrow> bool" where
  "truthy PNone = False"
| "truthy (PBool b) = b"
| "truthy (PInt n) = (n \<noteq> 0)"
| "truthy (PStr s) = (s \<noteq> [])"
| "truthy (PList xs) = (xs \<noteq> [])"
| "truthy (PDict d) = (d \<noteq> [])"

text \<open>\<^verbatim>\<open>x > 0\<close>: defined for ints and bools, \<^verbatim>\<open>TypeError\<close> otherwise.\<close>

fun gt_zero :: "pyval \<Rightarrow> exn + bool" where
  "gt_zero (PInt n) = Inr (0 < n)"
| "gt_zero (PBool b) = Inr b"
| "gt_zero v = Inl TypeError"

text \<open>\<^verbatim>\<open>str(n)\<close> for an int: decimal digits, with a minus sign when negative.\<close>

definition digit_char :: "nat \<Rightarrow> char" where
  "digit_char d = ''0123456789'' ! d"

fun str_nat :: "nat \<Rightarrow> string" where
  "str_nat n = (if n < 10 then [digit_char n] else str_nat (n div 10) @ [digit_char (n mod 10)])"

definition str_int :: "int \<Rightarrow> string" where
  "str_int i = (if i < 0 then CHR ''-'' # str_nat (nat (- i)) else str_nat (nat i))"

text \<open>
  A \<^verbatim>\<open>datetime\<close> is the number of microseconds since the epoch; the seconds are
  \<open>dt div 1000000\<close> and the \<^verbatim>\<open>microsecond\<close> field is \<open>dt mod 1000000\<close>.

  \<^verbatim>\<open>dt.timestamp()\<close> is a binary double: the seconds plus \<^verbatim>\<open>microsecond / 1e6\<close>, the
  quotient and the sum each rounded to the nearest double, ties to even. A double
  is a multiple of \<open>2 ^ (e - 52)\<close>, where \<open>2 ^ e\<close> is the power of two at or below its
  magnitude (\<open>binade\<close>); the values that occur here are far from the overflow and the
  subnormal range. \<^verbatim>\<open>int(...)\<close> then truncates towards zero.
\<close>

type_synonym datetime = int

definition binade :: "rat \<Rightarrow> int" where
  "binade x =
     (let (p, q) = quotient_of x;
          e0 = bitlen p - bitlen q
      in if 2 powi e0 \<le> x then e0 else e0 - 1)"

definition round_half_even :: "rat \<Rightarrow> int" where
  "round_half_even y =
     (let f = \<lfloor>y\<rfloor>; d = y - of_int f
      in if d < 1 / 2 then f else if 1 / 2 < d then f + 1 else if even f then f else f + 1)"

definition round_double :: "rat \<Rightarrow> rat" where
  "round_double x =
     (if x = 0 then 0
      else let a = \<bar>x\<bar>; u = 2 powi (binade a - 52)
           in sgn x * of_int (round_half_even (a / u)) * u)"

definition timestamp :: "datetime \<Rightarrow> rat" where
  "timestamp dt =
     round_double (of_int (dt div 1000000) + round_double (of_int (dt mod 1000000) / 1000000))"

definition timestamp_int :: "datetime \<Rightarrow> int" where
  "timestamp_int dt = (let t = timestamp dt in if 0 \<le> t then \<lfloor>t\<rfloor> else \<lceil>t\<rceil>)"

section \<open>Data model\<close>

datatype TriggerType = TIME_BASED | EVENT_BASED | CONDITION_BASED | MANUAL

datatype ActionType =
    SEND_MESSAGE | CREATE_TASK | UPDATE_TASK | SEND_EMAIL | CREATE_CALENDAR_EVENT
  | PLAY_MUSIC | SET_REMINDER | LOG_ACTIVITY | CUSTOM_SCRIPT

fun TriggerType_value :: "TriggerType \<Rightarrow> string" where
  "TriggerType_value TIME_BASED = ''time_based''"
| "TriggerType_value EVENT_BASED = ''event_based''"
| "TriggerType_value CONDITION_BASED = ''condition_based''"
| "TriggerType_value MANUAL = ''manual''"

fun ActionType_value :: "ActionType \<Rightarrow> string" where
  "ActionType_value SEND_MESSAGE = ''send_message''"
| "ActionType_value CREATE_TASK = ''create_task''"
| "ActionType_value UPDATE_TASK = ''update_task''"
| "ActionType_value SEND_EMAIL = ''send_email''"
| "ActionType_value CREATE_CALENDAR_EVENT = ''create_calendar_event''"
| "ActionType_value PLAY_MUSIC = ''play_music''"
| "ActionType_value SET_REMINDER = ''set_reminder''"
| "ActionType_value LOG_ACTIVITY = ''log_activity''"
| "ActionType_value CUSTOM_SCRIPT = ''custom_script''"

text \<open>
  \<^verbatim>\<open>TriggerType(v)\<close> and \<^verbatim>\<open>ActionType(v)\<close>: the member whose value equals \<open>v\<close>,
  \<^verbatim>\<open>ValueError\<close> when there is none.
\<close>

definition TriggerType_of :: "pyval \<Rightarrow> exn + TriggerType" where
  "TriggerType_of v =
     (case find (\<lambda>t. v = PStr (TriggerType_value t))
                [TIME_BASED, EVENT_BASED, CONDITION_BASED, MANUAL] of
        None \<Rightarrow> Inl (ValueError v)
      | Some t \<Rightarrow> Inr t)"

definition ActionType_of :: "pyval \<Rightarrow> exn + ActionType" where
  "ActionType_of v =
     (case find (\<lambda>t. v = PStr (ActionType_value t))
                [SEND_MESSAGE, CREATE_TASK, UPDATE_TASK, SEND_EMAIL, CREATE_CALENDAR_EVENT,
                 PLAY_MUSIC, SET_REMINDER, LOG_ACTIVITY, CUSTOM_SCRIPT] of
        None \<Rightarrow> Inl (ValueError v)
      | Some t \<Rightarrow> Inr t)"

text \<open>
  The three dataclasses. Fields filled from a request dictionary without a check keep
  the type \<open>pyval\<close>. \<open>success_rate\<close> is a float in the source and a real here.
  Field names carry a prefix where two classes share a name or the name is taken
  (\<open>auto_id\<close> for \<^verbatim>\<open>id\<close>, \<open>trigger_type\<close> and \<open>action_type\<close> for \<^verbatim>\<open>type\<close>), and the
  methods of the engine are written without their leading underscore.
\<close>

record AutomationTrigger =
  trigger_type :: TriggerType
  trigger_condition :: pyval
  trigger_parameters :: pyval

record AutomationAction =
  action_type :: ActionType
  action_parameters :: pyval
  action_service :: pyval
  action_delay_seconds :: pyval

record Automation =
  auto_id :: string
  auto_name :: string
  description :: string
  trigger :: AutomationTrigger
  actions :: "AutomationAction list"
  conditions :: "string list"
  enabled :: bool
  created_at :: datetime
  last_run :: "datetime option"
  run_count :: int
  success_rate :: real


text \<open>One entry of the \<^verbatim>\<open>results\<close> list of a run: the action's kind and either
  the value the action returned or the exception it raised (the source stores
  \<^verbatim>\<open>str(e)\<close> of it).\<close>

datatype ActionResult =
    Succeeded string pyval
  | Failed string exn

fun result_action :: "ActionResult \<Rightarrow> string" where
  "result_action (Succeeded a v) = a"
| "result_action (Failed a e) = a"

fun result_success :: "ActionResult \<Rightarrow> bool" where
  "result_success (Succeeded a v) = True"
| "result_success (Failed a e) = False"

record RunResult =
  automation_id :: string
  automation_name :: string
  executed_at :: datetime
  results :: "ActionResult list"

text \<open>The dictionaries the public operations return, one constructor per shape:
  \<^verbatim>\<open>{"error": msg}\<close>, the four fields of a creation, \<^verbatim>\<open>{"success": True, "message": msg}\<close>,
  and the result of a run.\<close>

datatype reply =
    Error string
  | Created string string string string
  | Success string
  | Ran RunResult

section \<open>Collaborators\<close>

text \<open>
  The service manager, \<^verbatim>\<open>time.sleep\<close>, the clock and \<^verbatim>\<open>str()\<close> on arbitrary
  values are outside the engine. They are parameters: each call takes the state of the
  outside world \<open>'w\<close> and returns the new one, with either a value or an exception.
  The service manager is one that has the four methods the engine calls; what a method
  does when called, raising included, is left open.
\<close>

record 'w env =
  send_message :: "pyval \<Rightarrow> pyval \<Rightarrow> pyval \<Rightarrow> 'w \<Rightarrow> (exn + pyval) \<times> 'w"
  create_task :: "pyval \<Rightarrow> pyval \<Rightarrow> pyval \<Rightarrow> pyval \<Rightarrow> pyval \<Rightarrow> 'w \<Rightarrow> (exn + pyval) \<times> 'w"
  update_task :: "pyval \<Rightarrow> pyval \<Rightarrow> 'w \<Rightarrow> (exn + pyval) \<times> 'w"
  create_calendar_event :: "pyval \<Rightarrow> pyval \<Rightarrow> pyval \<Rightarrow> pyval \<Rightarrow> 'w \<Rightarrow> (exn + pyval) \<times> 'w"
  sleep :: "pyval \<Rightarrow> 'w \<Rightarrow> (exn + unit) \<times> 'w"
  now :: "'w \<Rightarrow> datetime \<times> 'w"
  str_of :: "pyval \<Rightarrow> string"

text \<open>
  The \<^verbatim>\<open>schedule\<close> package keeps one global list of jobs. A job records how often it
  runs, the function call it makes (here always \<^verbatim>\<open>_execute_automation(automation, {})\<close>,
  so the job holds the automation) and its tags. In the source the job refers to the
  automation object; the fields a run reads (\<open>actions\<close>, \<open>auto_id\<close>, \<open>auto_name\<close>) are
  never assigned after creation, so a copy of the object in the job gives the same runs.
  When a job is due is the package's matter and is not modelled.
\<close>

datatype time_unit = Minutes | Hours | Days

record Job =
  job_interval :: nat
  job_unit :: time_unit
  job_at_time :: "string option"
  job_automation :: Automation
  job_tags :: "string list"

section \<open>The engine\<close>

record engine =
  automations :: "(string \<times> Automation) list"
  jobs :: "Job list"

text \<open>\<^verbatim>\<open>schedule.every(n).<unit>[.at(t)].do(self._execute_automation, automation, {}).tag(id)\<close>
  appends one job; \<^verbatim>\<open>schedule.clear(tag)\<close> removes every job that carries the tag.\<close>

definition schedule_do :: "nat \<Rightarrow> time_unit \<Rightarrow> string option \<Rightarrow> Automation \<Rightarrow> engine \<Rightarrow> engine" where
  "schedule_do n u t automation st =
     st\<lparr>jobs := jobs st @
       [\<lparr>job_interval = n, job_unit = u, job_at_time = t, job_automation = automation,
         job_tags = [auto_id automation]\<rparr>]\<rparr>"

definition schedule_clear :: "string \<Rightarrow> engine \<Rightarrow> engine" where
  "schedule_clear tag st = st\<lparr>jobs := filter (\<lambda>j. tag \<notin> set (job_tags j)) (jobs st)\<rparr>"

definition schedule_automation :: "Automation \<Rightarrow> engine \<Rightarrow> engine" where
  "schedule_automation automation st =
     (if trigger_type (trigger automation) \<noteq> TIME_BASED then st
      else let cron_expression = trigger_condition (trigger automation) in
        if cron_expression = PStr ''0 8 * * *'' then
          schedule_do 1 Days (Some ''08:00'') automation st
        else if cron_expression = PStr ''0 18 * * *'' then
          schedule_do 1 Days (Some ''18:00'') automation st
        else if cron_expression = PStr ''0 */2 * * *'' then
          schedule_do 2 Hours None automation st
        else if cron_expression = PStr ''15 * * * *'' then
          schedule_do 15 Minutes None automation st
        else st)"

subsection \<open>Conditions\<close>

definition has_upcoming_meeting :: bool where
  "has_upcoming_meeting = False"

fun check_each :: "string list \<Rightarrow> pydict \<Rightarrow> bool" where
  "check_each [] context = True"
| "check_each (condition # rest) context =
     (if condition = ''work_mode'' then
        (if \<not> truthy (dict_get context ''work_mode'' (PBool False)) then False
         else check_each rest context)
      else if condition = ''personal_mode'' then
        (if \<not> truthy (dict_get context ''personal_mode'' (PBool False)) then False
         else check_each rest context)
      else if condition = ''upcoming_meeting'' then
        (if \<not> has_upcoming_meeting then False else check_each rest context)
      else check_each rest context)"

definition check_conditions :: "string list \<Rightarrow> pydict \<Rightarrow> bool" where
  "check_conditions conds context = (if conds = [] then True else check_each conds context)"

subsection \<open>Executing actions\<close>

definition replace_placeholders :: "pyval \<Rightarrow> pydict \<Rightarrow> pyval" where
  "replace_placeholders params context = params"

text \<open>An argument whose evaluation raises ends the call before the service is reached.\<close>

fun with_arg :: "exn + 'a \<Rightarrow> ('a \<Rightarrow> 'w \<Rightarrow> (exn + 'b) \<times> 'w) \<Rightarrow> 'w \<Rightarrow> (exn + 'b) \<times> 'w" where
  "with_arg (Inl e) k w = (Inl e, w)"
| "with_arg (Inr v) k w = k v w"

definition execute_action :: "'w env \<Rightarrow> AutomationAction \<Rightarrow> pydict \<Rightarrow> 'w \<Rightarrow> (exn + pyval) \<times> 'w" where
  "execute_action env action context w =
     (let params = replace_placeholders (action_parameters action) context;
          service = action_service action
      in case action_type action of
        SEND_MESSAGE \<Rightarrow>
          with_arg (getitem params ''message'') (\<lambda>message.
          with_arg (getitem params ''recipient'') (\<lambda>recipient.
            send_message env message recipient service)) w
      | CREATE_TASK \<Rightarrow>
          with_arg (getitem params ''title'') (\<lambda>title.
          with_arg (get_method params ''description'' (PStr [])) (\<lambda>descr.
          with_arg (get_method params ''priority'' (PStr ''medium'')) (\<lambda>priority.
          with_arg (get_method params ''due_date'' PNone) (\<lambda>due_date.
            create_task env title descr priority due_date service)))) w
      | UPDATE_TASK \<Rightarrow>
          with_arg (getitem params ''task_id'') (\<lambda>task_id.
          with_arg (getitem params ''updates'') (\<lambda>updates.
            update_task env task_id updates)) w
      | SEND_EMAIL \<Rightarrow>
          with_arg (getitem params ''message'') (\<lambda>message.
          with_arg (getitem params ''recipient'') (\<lambda>recipient.
            send_message env message recipient (PStr ''email''))) w
      | CREATE_CALENDAR_EVENT \<Rightarrow>
          with_arg (getitem params ''title'') (\<lambda>title.
          with_arg (getitem params ''start_time'') (\<lambda>start_time.
          with_arg (getitem params ''end_time'') (\<lambda>end_time.
          with_arg (get_method params ''description'' (PStr [])) (\<lambda>descr.
            create_calendar_event env title start_time end_time descr)))) w
      | PLAY_MUSIC \<Rightarrow>
          with_arg (get_method params ''playlist'' (PStr ''default'')) (\<lambda>playlist w'.
            (Inr (PDict [(''success'', PBool True),
                         (''message'', PStr (''Playing music: '' @ str_of env playlist))]), w')) w
      | SET_REMINDER \<Rightarrow>
          with_arg (getitem params ''message'') (\<lambda>message w'.
            (Inr (PDict [(''success'', PBool True),
                         (''message'', PStr (''Reminder set: '' @ str_of env message))]), w')) w
      | LOG_ACTIVITY \<Rightarrow>
          (Inr (PDict [(''success'', PBool True), (''message'', PStr ''Activity logged'')]), w)
      | CUSTOM_SCRIPT \<Rightarrow>
          (Inr (PDict [(''error'', PStr ''Unknown action type: ActionType.CUSTOM_SCRIPT'')]), w))"

text \<open>The body of the loop of \<^verbatim>\<open>_execute_automation\<close>: the \<^verbatim>\<open>try\<close> block (the delay,
  then the action) and the \<^verbatim>\<open>except Exception\<close> that turns a raise into a result.\<close>

definition try_action :: "'w env \<Rightarrow> AutomationAction \<Rightarrow> pydict \<Rightarrow> 'w \<Rightarrow> (exn + pyval) \<times> 'w" where
  "try_action env action context w =
     (case gt_zero (action_delay_seconds action) of
        Inl e \<Rightarrow> (Inl e, w)
      | Inr True \<Rightarrow>
          (case sleep env (action_delay_seconds action) w of
             (Inl e, w1) \<Rightarrow> (Inl e, w1)
           | (Inr u, w1) \<Rightarrow> execute_action env action context w1)
      | Inr False \<Rightarrow> execute_action env action context w)"

definition run_action :: "'w env \<Rightarrow> AutomationAction \<Rightarrow> pydict \<Rightarrow> 'w \<Rightarrow> ActionResult \<times> 'w" where
  "run_action env action context w =
     (case try_action env action context w of
        (Inr result, w1) \<Rightarrow> (Succeeded (ActionType_value (action_type action)) result, w1)
      | (Inl e, w1) \<Rightarrow> (Failed (ActionType_value (action_type action)) e, w1))"

fun run_actions :: "'w env \<Rightarrow> AutomationAction list \<Rightarrow> pydict \<Rightarrow> 'w \<Rightarrow> ActionResult list \<times> 'w" where
  "run_actions env [] context w = ([], w)"
| "run_actions env (action # rest) context w =
     (case run_action env action context w of
        (r, w1) \<Rightarrow> (case run_actions env rest context w1 of (rs, w2) \<Rightarrow> (r # rs, w2)))"

definition execute_automation :: "'w env \<Rightarrow> Automation \<Rightarrow> pydict \<Rightarrow> 'w \<Rightarrow> RunResult \<times> 'w" where
  "execute_automation env automation context w =
     (case run_actions env (actions automation) context w of
        (rs, w1) \<Rightarrow> (case now env w1 of
          (t, w2) \<Rightarrow>
            (\<lparr>automation_id = auto_id automation, automation_name = auto_name automation,
              executed_at = t, results = rs\<rparr>, w2)))"


subsection \<open>The catalog operations\<close>

text \<open>
  \<^verbatim>\<open>create_automation\<close> reads the clock for the id, parses the trigger and then the
  actions (each of which may raise), reads the clock again for \<^verbatim>\<open>created_at\<close>, stores
  the automation under its id and schedules it when it is time-based. A raise leaves
  through \<open>Inl\<close>: the source has no handler, its callers have.
\<close>

definition parse_trigger :: "pydict \<Rightarrow> exn + AutomationTrigger" where
  "parse_trigger trig =
     (case dict_getitem trig ''type'' of
        Inl e \<Rightarrow> Inl e
      | Inr v \<Rightarrow> (case TriggerType_of v of
          Inl e \<Rightarrow> Inl e
        | Inr ty \<Rightarrow> (case dict_getitem trig ''condition'' of
            Inl e \<Rightarrow> Inl e
          | Inr c \<Rightarrow> Inr \<lparr>trigger_type = ty, trigger_condition = c,
                         trigger_parameters = dict_get trig ''parameters'' (PDict [])\<rparr>)))"

definition parse_action :: "pydict \<Rightarrow> exn + AutomationAction" where
  "parse_action action_data =
     (case dict_getitem action_data ''type'' of
        Inl e \<Rightarrow> Inl e
      | Inr v \<Rightarrow> (case ActionType_of v of
          Inl e \<Rightarrow> Inl e
        | Inr ty \<Rightarrow> (case dict_getitem action_data ''parameters'' of
            Inl e \<Rightarrow> Inl e
          | Inr ps \<Rightarrow> Inr \<lparr>action_type = ty, action_parameters = ps,
                          action_service = dict_get action_data ''service'' (PStr ''auto''),
                          action_delay_seconds = dict_get action_data ''delay_seconds'' (PInt 0)\<rparr>)))"

fun parse_actions :: "pydict list \<Rightarrow> exn + AutomationAction list" where
  "parse_actions [] = Inr []"
| "parse_actions (action_data # rest) =
     (case parse_action action_data of
        Inl e \<Rightarrow> Inl e
      | Inr a \<Rightarrow> (case parse_actions rest of Inl e \<Rightarrow> Inl e | Inr as \<Rightarrow> Inr (a # as)))"

definition quoted :: "string \<Rightarrow> string" where
  "quoted s = CHR 0x27 # s @ [CHR 0x27]"

definition create_automation ::
  "'w env \<Rightarrow> string \<Rightarrow> pydict \<Rightarrow> pydict list \<Rightarrow> string list option \<Rightarrow> engine \<Rightarrow> 'w
     \<Rightarrow> (exn + reply) \<times> engine \<times> 'w" where
  "create_automation env name trig acts conds st w =
     (case now env w of (t0, w1) \<Rightarrow>
      let automation_id = ''auto_'' @ str_int (timestamp_int t0) in
      (case parse_trigger trig of
        Inl e \<Rightarrow> (Inl e, st, w1)
      | Inr trigger_obj \<Rightarrow>
         (case parse_actions acts of
            Inl e \<Rightarrow> (Inl e, st, w1)
          | Inr action_objs \<Rightarrow>
             (case now env w1 of (t1, w2) \<Rightarrow>
              let automation =
                    \<lparr>auto_id = automation_id, auto_name = name,
                     description = ''Custom automation: '' @ name,
                     trigger = trigger_obj, actions = action_objs,
                     conditions = (case conds of None \<Rightarrow> [] | Some cs \<Rightarrow> cs),
                     enabled = True, created_at = t1, last_run = None,
                     run_count = 0, success_rate = 1\<rparr>;
                  st1 = st\<lparr>automations := AList.update automation_id automation (automations st)\<rparr>;
                  st2 = (if trigger_type trigger_obj = TIME_BASED
                         then schedule_automation automation st1 else st1)
              in (Inr (Created automation_id name ''created''
                         (''Automation '' @ quoted name @ '' created successfully'')),
                  st2, w2)))))"

definition enable_automation :: "string \<Rightarrow> engine \<Rightarrow> reply \<times> engine" where
  "enable_automation aid st =
     (case map_of (automations st) aid of
        None \<Rightarrow> (Error ''Automation not found'', st)
      | Some a \<Rightarrow>
          let automation = a\<lparr>enabled := True\<rparr>;
              st1 = st\<lparr>automations := AList.update aid automation (automations st)\<rparr>;
              st2 = (if trigger_type (trigger automation) = TIME_BASED
                     then schedule_automation automation st1 else st1)
          in (Success (''Automation '' @ quoted (auto_name automation) @ '' enabled''), st2))"

definition disable_automation :: "string \<Rightarrow> engine \<Rightarrow> reply \<times> engine" where
  "disable_automation aid st =
     (case map_of (automations st) aid of
        None \<Rightarrow> (Error ''Automation not found'', st)
      | Some a \<Rightarrow>
          let automation = a\<lparr>enabled := False\<rparr>;
              st1 = st\<lparr>automations := AList.update aid automation (automations st)\<rparr>;
              st2 = (if trigger_type (trigger automation) = TIME_BASED
                     then schedule_clear aid st1 else st1)
          in (Success (''Automation '' @ quoted (auto_name automation) @ '' disabled''), st2))"

definition delete_automation :: "string \<Rightarrow> engine \<Rightarrow> reply \<times> engine" where
  "delete_automation aid st =
     (case map_of (automations st) aid of
        None \<Rightarrow> (Error ''Automation not found'', st)
      | Some automation \<Rightarrow>
          let st1 = (if trigger_type (trigger automation) = TIME_BASED
                     then schedule_clear aid st else st);
              st2 = st1\<lparr>automations := AList.delete aid (automations st1)\<rparr>
          in (Success (''Automation '' @ quoted (auto_name automation) @ '' deleted''), st2))"

text \<open>\<^verbatim>\<open>context or {}\<close> for the optional context of a manual trigger.\<close>

definition context_or_empty :: "pydict option \<Rightarrow> pydict" where
  "context_or_empty context = (case context of None \<Rightarrow> [] | Some d \<Rightarrow> d)"

definition trigger_automation ::
  "'w env \<Rightarrow> string \<Rightarrow> pydict option \<Rightarrow> engine \<Rightarrow> 'w \<Rightarrow> reply \<times> engine \<times> 'w" where
  "trigger_automation env aid context st w =
     (case map_of (automations st) aid of
        None \<Rightarrow> (Error ''Automation not found'', st, w)
      | Some automation \<Rightarrow>
          if \<not> enabled automation then (Error ''Automation is disabled'', st, w)
          else if \<not> check_conditions (conditions automation) (context_or_empty context)
          then (Error ''Automation conditions not met'', st, w)
          else
            (case execute_automation env automation (context_or_empty context) w of
               (result, w1) \<Rightarrow>
                 (case now env w1 of (t, w2) \<Rightarrow>
                    (Ran result,
                     st\<lparr>automations :=
                          AList.update aid
                            (automation\<lparr>last_run := Some t, run_count := run_count automation + 1\<rparr>)
                            (automations st)\<rparr>,
                     w2))))"

subsection \<open>The worker\<close>

text \<open>
  \<^verbatim>\<open>schedule.run_pending()\<close> calls the function of every job that is due. Which jobs are
  due, and in which order, is the scheduling package's matter: \<open>run_pending\<close> takes
  them as a list. Running a job calls \<^verbatim>\<open>_execute_automation(automation, {})\<close> and
  drops what it returns; the job stays in the list for its next occurrence.
\<close>

definition run_job :: "'w env \<Rightarrow> Job \<Rightarrow> engine \<Rightarrow> 'w \<Rightarrow> engine \<times> 'w" where
  "run_job env j st w = (st, snd (execute_automation env (job_automation j) [] w))"

fun run_pending :: "'w env \<Rightarrow> Job list \<Rightarrow> engine \<Rightarrow> 'w \<Rightarrow> engine \<times> 'w" where
  "run_pending env [] st w = (st, w)"
| "run_pending env (j # due) st w =
     (case run_job env j st w of (st1, w1) \<Rightarrow> run_pending env due st1 w1)"


section \<open>Notions the properties are stated with\<close>

text \<open>The four schedule strings \<open>schedule_automation\<close> compares with.\<close>

definition recognised_schedule :: "pyval \<Rightarrow> bool" where
  "recognised_schedule c =
     (c = PStr ''0 8 * * *'' \<or> c = PStr ''0 18 * * *'' \<or> c = PStr ''0 */2 * * *''
      \<or> c = PStr ''15 * * * *'')"

text \<open>The number of pending jobs that carry a tag.\<close>

definition count_tagged :: "string \<Rightarrow> engine \<Rightarrow> nat" where
  "count_tagged tag st = length (filter (\<lambda>j. tag \<in> set (job_tags j)) (jobs st))"

text \<open>A request whose kind is no member of the enum (or is missing altogether).\<close>

definition unknown_trigger_kind :: "pydict \<Rightarrow> bool" where
  "unknown_trigger_kind trig =
     (case map_of trig ''type'' of None \<Rightarrow> True | Some v \<Rightarrow> isl (TriggerType_of v))"

definition unknown_action_kind :: "pydict \<Rightarrow> bool" where
  "unknown_action_kind action_data =
     (case map_of action_data ''type'' of None \<Rightarrow> True | Some v \<Rightarrow> isl (ActionType_of v))"

text \<open>
  The specification's running average, in its own words: a run succeeded when every
  action in it succeeded, and
  \<^verbatim>\<open>success_rate' = (success_rate * run_count + (runSucceeded ? 1 : 0)) / (run_count + 1)\<close>.
\<close>

definition run_succeeded :: "ActionResult list \<Rightarrow> bool" where
  "run_succeeded rs = list_all result_success rs"

definition spec_success_rate :: "real \<Rightarrow> int \<Rightarrow> bool \<Rightarrow> real" where
  "spec_success_rate rate n ok = (rate * of_int n + (if ok then 1 else 0)) / (of_int n + 1)"

section \<open>A recording service manager and sample requests\<close>

text \<open>
  A concrete outside world for the examples: a clock that advances by one microsecond
  at each reading, and the list of the calls made so far. Every service call is
  recorded; \<^verbatim>\<open>update_task\<close> raises, the others succeed.
\<close>

datatype call =
    SendMessage pyval pyval pyval
  | CreateTask pyval pyval pyval pyval pyval
  | UpdateTask pyval pyval
  | CreateCalendarEvent pyval pyval pyval pyval
  | Sleep pyval

type_synonym world = "datetime \<times> call list"

definition ok_reply :: pyval where
  "ok_reply = PDict [(''success'', PBool True)]"

definition str_simple :: "pyval \<Rightarrow> string" where
  "str_simple v = (case v of PStr s \<Rightarrow> s | PInt i \<Rightarrow> str_int i | _ \<Rightarrow> ''?'')"

definition recording_env :: "world env" where
  "recording_env =
     \<lparr>send_message = (\<lambda>m r c (t, log). (Inr ok_reply, (t, log @ [SendMessage m r c]))),
      create_task = (\<lambda>ti d p du s (t, log). (Inr ok_reply, (t, log @ [CreateTask ti d p du s]))),
      update_task = (\<lambda>i u (t, log). (Inl (Raised ''no such task''), (t, log @ [UpdateTask i u]))),
      create_calendar_event =
        (\<lambda>ti s e d (t, log). (Inr ok_reply, (t, log @ [CreateCalendarEvent ti s e d]))),
      sleep = (\<lambda>d (t, log). (Inr (), (t, log @ [Sleep d]))),
      now = (\<lambda>(t, log). (t, (t + 1, log))),
      str_of = str_simple\<rparr>"

definition empty_engine :: engine where
  "empty_engine = \<lparr>automations = [], jobs = []\<rparr>"

definition start_world :: world where
  "start_world = (1700000000000000, [])"

text \<open>Three actions of which the second fails, and a stored automation that has them.\<close>

definition three_actions :: "AutomationAction list" where
  "three_actions =
     [\<lparr>action_type = CREATE_TASK, action_parameters = PDict [(''title'', PStr ''Plan your day'')],
       action_service = PStr ''auto'', action_delay_seconds = PInt 0\<rparr>,
      \<lparr>action_type = UPDATE_TASK,
       action_parameters = PDict [(''task_id'', PStr ''{task_id}''), (''updates'', PDict [])],
       action_service = PStr ''auto'', action_delay_seconds = PInt 0\<rparr>,
      \<lparr>action_type = SEND_MESSAGE,
       action_parameters = PDict [(''message'', PStr ''Good morning''), (''recipient'', PStr ''self'')],
       action_service = PStr ''slack'', action_delay_seconds = PInt 30\<rparr>]"

definition sample_automation :: Automation where
  "sample_automation =
     \<lparr>auto_id = ''auto_1700000000'', auto_name = ''Morning'',
      description = ''Custom automation: Morning'',
      trigger = \<lparr>trigger_type = MANUAL, trigger_condition = PStr ''start'',
                 trigger_parameters = PDict []\<rparr>,
      actions = three_actions, conditions = [''work_mode''], enabled = True,
      created_at = 1700000000000001, last_run = None, run_count = 0, success_rate = 1\<rparr>"

definition sample_engine :: engine where
  "sample_engine = \<lparr>automations = [(''auto_1700000000'', sample_automation)], jobs = []\<rparr>"

text \<open>Requests as a caller sends them: a time-based trigger with a given schedule
  string, and one \<^verbatim>\<open>create_task\<close> action.\<close>

definition time_trigger :: "string \<Rightarrow> pydict" where
  "time_trigger cron =
     [(''type'', PStr ''time_based''), (''condition'', PStr cron), (''parameters'', PDict [])]"

definition plan_task_request :: pydict where
  "plan_task_request =
     [(''type'', PStr ''create_task''),
      (''parameters'', PDict [(''title'', PStr ''Plan your day''), (''priority'', PStr ''high'')]),
      (''service'', PStr ''auto''), (''delay_seconds'', PInt 0)]"

text \<open>The engine after creating the daily 8 o'clock automation that is to run in work
  mode only, as the \<^verbatim>\<open>morning_routine\<close> template declares it.\<close>

definition morning_engine :: engine where
  "morning_engine =
     fst (snd (create_automation recording_env ''Morning'' (time_trigger ''0 8 * * *'')
                 [plan_task_request] (Some [''work_mode'']) empty_engine start_world))"

definition timed_automation :: "string \<Rightarrow> Automation" where
  "timed_automation cron =
     sample_automation\<lparr>trigger := \<lparr>trigger_type = TIME_BASED, trigger_condition = PStr cron,
                                    trigger_parameters = PDict []\<rparr>\<rparr>"

text \<open>The id \<open>create_automation\<close> assigns when the clock is read in world \<open>w\<close>, and the
  automation it stores.\<close>

definition new_id :: "'w env \<Rightarrow> 'w \<Rightarrow> string" where
  "new_id env w = ''auto_'' @ str_int (timestamp_int (fst (now env w)))"

definition new_automation ::
  "string \<Rightarrow> string \<Rightarrow> AutomationTrigger \<Rightarrow> AutomationAction list \<Rightarrow> string list option
     \<Rightarrow> datetime \<Rightarrow> Automation" where
  "new_automation aid name tg acts conds t =
     \<lparr>auto_id = aid, auto_name = name, description = ''Custom automation: '' @ name,
      trigger = tg, actions = acts,
      conditions = (case conds of None \<Rightarrow> [] | Some cs \<Rightarrow> cs),
      enabled = True, created_at = t, last_run = None, run_count = 0, success_rate = 1\<rparr>"

text \<open>Further sample requests and the engines they lead to.\<close>

definition report_engine :: "string \<Rightarrow> engine" where
  "report_engine cron =
     fst (snd (create_automation recording_env ''Report'' (time_trigger cron) [] None
                 empty_engine start_world))"

definition bogus_trigger :: pydict where
  "bogus_trigger = [(''type'', PStr ''bogus''), (''condition'', PStr ''0 8 * * *'')]"

definition rocket_request :: pydict where
  "rocket_request = [(''type'', PStr ''launch_rocket''), (''parameters'', PDict [])]"

definition manual_trigger :: pydict where
  "manual_trigger = [(''type'', PStr ''manual''), (''condition'', PStr ''start_focus'')]"

text \<open>Two creations one after the other on the same clock, which has advanced by two
  microseconds in between: a daily automation, then a manual one.\<close>

definition after_first :: "engine \<times> world" where
  "after_first = snd (create_automation recording_env ''First'' (time_trigger ''0 8 * * *'')
                        [plan_task_request] None empty_engine start_world)"

definition after_second :: "engine \<times> world" where
  "after_second = snd (create_automation recording_env ''Second'' manual_trigger [] None
                         (fst after_first) (snd after_first))"

definition morning_automation :: Automation where
  "morning_automation =
     new_automation ''auto_1700000000'' ''Morning''
       \<lparr>trigger_type = TIME_BASED, trigger_condition = PStr ''0 8 * * *'',
        trigger_parameters = PDict []\<rparr>
       [\<lparr>action_type = CREATE_TASK,
         action_parameters = PDict [(''title'', PStr ''Plan your day''), (''priority'', PStr ''high'')],
         action_service = PStr ''auto'', action_delay_seconds = PInt 0\<rparr>]
       (Some [''work_mode'']) 1700000000000001"

text \<open>The world after the \<^verbatim>\<open>try\<close> block of each action of a list has been run in turn,
  whatever each of them returned or raised.\<close>

definition attempt_all :: "'w env \<Rightarrow> AutomationAction list \<Rightarrow> pydict \<Rightarrow> 'w \<Rightarrow> 'w" where
  "attempt_all env acts context w =
     fold (\<lambda>action v. snd (try_action env action context v)) acts w"

text \<open>A run through every kind of action, with actions that fail in the delay test, in
  an argument and in the service between actions that succeed.\<close>

definition all_kinds_actions :: "AutomationAction list" where
  "all_kinds_actions =
     [\<lparr>action_type = SEND_MESSAGE,
       action_parameters = PDict [(''message'', PStr ''hi''), (''recipient'', PStr ''self'')],
       action_service = PStr ''slack'', action_delay_seconds = PInt 30\<rparr>,
      \<lparr>action_type = CREATE_TASK, action_parameters = PDict [(''title'', PStr ''Plan'')],
       action_service = PStr ''auto'', action_delay_seconds = PInt 0\<rparr>,
      \<lparr>action_type = UPDATE_TASK,
       action_parameters = PDict [(''task_id'', PStr ''t1''), (''updates'', PDict [])],
       action_service = PStr ''auto'', action_delay_seconds = PInt 0\<rparr>,
      \<lparr>action_type = SEND_EMAIL,
       action_parameters = PDict [(''message'', PStr ''report''), (''recipient'', PStr ''boss'')],
       action_service = PStr ''slack'', action_delay_seconds = PInt 0\<rparr>,
      \<lparr>action_type = CREATE_CALENDAR_EVENT,
       action_parameters = PDict [(''title'', PStr ''Review''), (''start_time'', PStr ''09:00''),
                                  (''end_time'', PStr ''10:00'')],
       action_service = PStr ''auto'', action_delay_seconds = PInt 0\<rparr>,
      \<lparr>action_type = PLAY_MUSIC, action_parameters = PDict [],
       action_service = PStr ''auto'', action_delay_seconds = PInt 0\<rparr>,
      \<lparr>action_type = SET_REMINDER, action_parameters = PDict [],
       action_service = PStr ''auto'', action_delay_seconds = PInt 0\<rparr>,
      \<lparr>action_type = LOG_ACTIVITY, action_parameters = PNone,
       action_service = PStr ''auto'', action_delay_seconds = PInt 0\<rparr>,
      \<lparr>action_type = CUSTOM_SCRIPT, action_parameters = PDict [],
       action_service = PStr ''auto'', action_delay_seconds = PInt 0\<rparr>,
      \<lparr>action_type = SEND_MESSAGE,
       action_parameters = PDict [(''message'', PStr ''hi''), (''recipient'', PStr ''self'')],
       action_service = PStr ''slack'', action_delay_seconds = PStr ''soon''\<rparr>,
      \<lparr>action_type = CREATE_TASK, action_parameters = PList [],
       action_service = PStr ''auto'', action_delay_seconds = PInt 0\<rparr>,
      \<lparr>action_type = SEND_MESSAGE,
       action_parameters = PDict [(''message'', PStr ''bye''), (''recipient'', PStr ''self'')],
       action_service = PStr ''slack'', action_delay_seconds = PBool True\<rparr>]"

definition all_kinds_automation :: Automation where
  "all_kinds_automation = sample_automation\<lparr>actions := all_kinds_actions\<rparr>"

section \<open>Properties of the action executor\<close>

lemma run_actions_Cons:
  "run_actions env (a # acts) ctx w =
     (fst (run_action env a ctx w) # fst (run_actions env acts ctx (snd (run_action env a ctx w))),
      snd (run_actions env acts ctx (snd (run_action env a ctx w))))"
  by (simp add: case_prod_beta)

lemma run_actions_length: "length (fst (run_actions env acts ctx w)) = length acts"
  by (induction acts arbitrary: w) (simp_all add: run_actions_Cons del: run_actions.simps(2))

lemma result_action_run_action:
  "result_action (fst (run_action env a ctx w)) = ActionType_value (action_type a)"
  by (auto simp: run_action_def split: prod.splits sum.splits)

lemma run_actions_kinds:
  "map result_action (fst (run_actions env acts ctx w)) =
     map (\<lambda>a. ActionType_value (action_type a)) acts"
  by (induction acts arbitrary: w)
     (simp_all add: run_actions_Cons result_action_run_action del: run_actions.simps(2))

lemma run_actions_nth:
  "i < length acts \<Longrightarrow>
     fst (run_actions env acts ctx w) ! i =
       fst (run_action env (acts ! i) ctx (snd (run_actions env (take i acts) ctx w)))"
proof (induction acts arbitrary: w i)
  case Nil
  then show ?case by simp
next
  case (Cons a acts)
  show ?case
  proof (cases i)
    case 0
    then show ?thesis by (simp add: run_actions_Cons del: run_actions.simps(2))
  next
    case (Suc k)
    with Cons.prems have "k < length acts" by simp
    from Cons.IH[OF this] Suc show ?thesis
      by (simp add: run_actions_Cons del: run_actions.simps(2))
  qed
qed

lemma results_execute_automation:
  "results (fst (execute_automation env a ctx w)) = fst (run_actions env (actions a) ctx w)"
  by (simp add: execute_automation_def split: prod.splits)

lemma fst_run_action:
  "fst (run_action env a ctx w) =
     (case fst (try_action env a ctx w) of
        Inr v \<Rightarrow> Succeeded (ActionType_value (action_type a)) v
      | Inl e \<Rightarrow> Failed (ActionType_value (action_type a)) e)"
  by (simp add: run_action_def split: prod.splits sum.splits)

lemma snd_run_action: "snd (run_action env a ctx w) = snd (try_action env a ctx w)"
  by (simp add: run_action_def split: prod.splits sum.splits)

lemma snd_run_actions: "snd (run_actions env acts ctx w) = attempt_all env acts ctx w"
  by (induction acts arbitrary: w)
     (simp_all add: run_actions_Cons snd_run_action attempt_all_def del: run_actions.simps(2))

lemma snd_execute_automation:
  "snd (execute_automation env a ctx w) = snd (now env (attempt_all env (actions a) ctx w))"
  by (simp add: execute_automation_def snd_run_actions[symmetric] split: prod.splits)

lemma all_kinds_run:
  "execute_automation recording_env all_kinds_automation [] start_world =
     (\<lparr>automation_id = ''auto_1700000000'', automation_name = ''Morning'',
       executed_at = 1700000000000000,
       results =
         [Succeeded ''send_message'' ok_reply,
          Succeeded ''create_task'' ok_reply,
          Failed ''update_task'' (Raised ''no such task''),
          Succeeded ''send_email'' ok_reply,
          Succeeded ''create_calendar_event'' ok_reply,
          Succeeded ''play_music''
            (PDict [(''success'', PBool True), (''message'', PStr ''Playing music: default'')]),
          Failed ''set_reminder'' (KeyError ''message''),
          Succeeded ''log_activity''
            (PDict [(''success'', PBool True), (''message'', PStr ''Activity logged'')]),
          Succeeded ''custom_script''
            (PDict [(''error'', PStr ''Unknown action type: ActionType.CUSTOM_SCRIPT'')]),
          Failed ''send_message'' TypeError,
          Failed ''create_task'' TypeError,
          Succeeded ''send_message'' ok_reply]\<rparr>,
      (1700000000000001,
       [Sleep (PInt 30),
        SendMessage (PStr ''hi'') (PStr ''self'') (PStr ''slack''),
        CreateTask (PStr ''Plan'') (PStr []) (PStr ''medium'') PNone (PStr ''auto''),
        UpdateTask (PStr ''t1'') (PDict []),
        SendMessage (PStr ''report'') (PStr ''boss'') (PStr ''email''),
        CreateCalendarEvent (PStr ''Review'') (PStr ''09:00'') (PStr ''10:00'') (PStr []),
        Sleep (PBool True),
        SendMessage (PStr ''bye'') (PStr ''self'') (PStr ''slack'')]))"
  by (simp add: execute_automation_def all_kinds_automation_def sample_automation_def
      all_kinds_actions_def run_action_def try_action_def execute_action_def recording_env_def
      replace_placeholders_def dict_getitem_def dict_get_def start_world_def str_simple_def)

text \<open>
  Claim C7. A run over \<open>n\<close> actions returns exactly \<open>n\<close> results, in the order of the
  actions: the \<open>i\<close>-th result carries the kind of the \<open>i\<close>-th action, and it is a success
  with the returned value exactly when the \<^verbatim>\<open>try\<close> block of that action (its delay,
  then the action itself) returned, a failure with the exception exactly when the block
  raised. The block of the \<open>i\<close>-th action runs in the world in which the blocks of all
  actions before it have been run, whether they returned or raised, and the run ends
  with the clock read in the world in which all \<open>n\<close> blocks have been run: no failure
  aborts or skips a later action.
\<close>

theorem execute_automation_results:
  "length (results (fst (execute_automation env a ctx w))) = length (actions a)
   \<and> map result_action (results (fst (execute_automation env a ctx w)))
       = map (\<lambda>x. ActionType_value (action_type x)) (actions a)
   \<and> (\<forall>i < length (actions a).
        results (fst (execute_automation env a ctx w)) ! i =
          (case fst (try_action env (actions a ! i) ctx
                       (attempt_all env (take i (actions a)) ctx w)) of
             Inr v \<Rightarrow> Succeeded (ActionType_value (action_type (actions a ! i))) v
           | Inl e \<Rightarrow> Failed (ActionType_value (action_type (actions a ! i))) e))
   \<and> snd (execute_automation env a ctx w) = snd (now env (attempt_all env (actions a) ctx w))"
  by (simp add: results_execute_automation run_actions_length run_actions_kinds run_actions_nth
      fst_run_action snd_run_actions snd_execute_automation)

text \<open>
  In the run through every kind, twelve results come back. The third, seventh, tenth
  and eleventh action fail (in the service, in an argument, in the delay test, in an
  argument); the twelfth runs in the world the eleven before it left, sleeps and sends
  its message, and succeeds.
\<close>

theorem execute_automation_results_witness:
  "(11::nat) < length (actions all_kinds_automation)
   \<and> attempt_all recording_env (take 11 (actions all_kinds_automation)) [] start_world =
       (1700000000000000,
        [Sleep (PInt 30),
         SendMessage (PStr ''hi'') (PStr ''self'') (PStr ''slack''),
         CreateTask (PStr ''Plan'') (PStr []) (PStr ''medium'') PNone (PStr ''auto''),
         UpdateTask (PStr ''t1'') (PDict []),
         SendMessage (PStr ''report'') (PStr ''boss'') (PStr ''email''),
         CreateCalendarEvent (PStr ''Review'') (PStr ''09:00'') (PStr ''10:00'') (PStr [])])
   \<and> results (fst (execute_automation recording_env all_kinds_automation [] start_world)) ! 11 =
       (case fst (try_action recording_env (actions all_kinds_automation ! 11) []
                    (attempt_all recording_env (take 11 (actions all_kinds_automation)) []
                       start_world)) of
          Inr v \<Rightarrow> Succeeded (ActionType_value (action_type (actions all_kinds_automation ! 11))) v
        | Inl e \<Rightarrow> Failed (ActionType_value (action_type (actions all_kinds_automation ! 11))) e)
   \<and> map result_success
        (results (fst (execute_automation recording_env all_kinds_automation [] start_world)))
       = [True, True, False, True, True, True, False, True, True, False, False, True]
   \<and> snd (execute_automation recording_env all_kinds_automation [] start_world) =
       (1700000000000001,
        [Sleep (PInt 30),
         SendMessage (PStr ''hi'') (PStr ''self'') (PStr ''slack''),
         CreateTask (PStr ''Plan'') (PStr []) (PStr ''medium'') PNone (PStr ''auto''),
         UpdateTask (PStr ''t1'') (PDict []),
         SendMessage (PStr ''report'') (PStr ''boss'') (PStr ''email''),
         CreateCalendarEvent (PStr ''Review'') (PStr ''09:00'') (PStr ''10:00'') (PStr []),
         Sleep (PBool True),
         SendMessage (PStr ''bye'') (PStr ''self'') (PStr ''slack'')])"
proof -
  have n: "(11::nat) < length (actions all_kinds_automation)"
    by (simp add: all_kinds_automation_def all_kinds_actions_def)
  have before: "attempt_all recording_env (take 11 (actions all_kinds_automation)) [] start_world =
       (1700000000000000,
        [Sleep (PInt 30),
         SendMessage (PStr ''hi'') (PStr ''self'') (PStr ''slack''),
         CreateTask (PStr ''Plan'') (PStr []) (PStr ''medium'') PNone (PStr ''auto''),
         UpdateTask (PStr ''t1'') (PDict []),
         SendMessage (PStr ''report'') (PStr ''boss'') (PStr ''email''),
         CreateCalendarEvent (PStr ''Review'') (PStr ''09:00'') (PStr ''10:00'') (PStr [])])"
    by (simp add: attempt_all_def all_kinds_automation_def all_kinds_actions_def
        try_action_def execute_action_def recording_env_def replace_placeholders_def
        dict_getitem_def dict_get_def start_world_def str_simple_def)
  from execute_automation_results[of recording_env all_kinds_automation "[]" start_world] n
  have nth: "results (fst (execute_automation recording_env all_kinds_automation [] start_world)) ! 11 =
       (case fst (try_action recording_env (actions all_kinds_automation ! 11) []
                    (attempt_all recording_env (take 11 (actions all_kinds_automation)) []
                       start_world)) of
          Inr v \<Rightarrow> Succeeded (ActionType_value (action_type (actions all_kinds_automation ! 11))) v
        | Inl e \<Rightarrow> Failed (ActionType_value (action_type (actions all_kinds_automation ! 11))) e)"
    by blast
  have run: "map result_success
        (results (fst (execute_automation recording_env all_kinds_automation [] start_world)))
       = [True, True, False, True, True, True, False, True, True, False, False, True]"
    by (simp add: all_kinds_run)
  have world: "snd (execute_automation recording_env all_kinds_automation [] start_world) =
       (1700000000000001,
        [Sleep (PInt 30),
         SendMessage (PStr ''hi'') (PStr ''self'') (PStr ''slack''),
         CreateTask (PStr ''Plan'') (PStr []) (PStr ''medium'') PNone (PStr ''auto''),
         UpdateTask (PStr ''t1'') (PDict []),
         SendMessage (PStr ''report'') (PStr ''boss'') (PStr ''email''),
         CreateCalendarEvent (PStr ''Review'') (PStr ''09:00'') (PStr ''10:00'') (PStr []),
         Sleep (PBool True),
         SendMessage (PStr ''bye'') (PStr ''self'') (PStr ''slack'')])"
    by (simp add: all_kinds_run)
  from n before nth run world show ?thesis by (intro conjI)
qed

section \<open>Manual triggering\<close>

lemma sample_lookup:
  "map_of (automations sample_engine) ''auto_1700000000'' = Some sample_automation"
  by (simp add: sample_engine_def)

lemma sample_disabled_lookup:
  "map_of (automations (snd (disable_automation ''auto_1700000000'' sample_engine)))
      ''auto_1700000000'' = Some (sample_automation\<lparr>enabled := False\<rparr>)"
  by (simp add: sample_engine_def disable_automation_def sample_automation_def)

lemma sample_conditions_met:
  "enabled sample_automation \<and>
   check_conditions (conditions sample_automation)
     (context_or_empty (Some [(''work_mode'', PBool True)]))"
  by (simp add: sample_automation_def check_conditions_def context_or_empty_def dict_get_def)

text \<open>
  Claim C6. A manual trigger of a stored automation that is disabled returns the error
  "Automation is disabled"; of one that is enabled but whose conditions are unmet, the
  error "Automation conditions not met". In both cases the engine (hence last-run,
  run count and success rate) and the outside world are exactly as before: no action
  ran, whatever the service manager is.
\<close>

theorem trigger_automation_refused:
  assumes "map_of (automations st) aid = Some a"
  shows "(\<not> enabled a \<longrightarrow>
            trigger_automation env aid context st w = (Error ''Automation is disabled'', st, w))
       \<and> (enabled a \<and> \<not> check_conditions (conditions a) (context_or_empty context) \<longrightarrow>
            trigger_automation env aid context st w
              = (Error ''Automation conditions not met'', st, w))"
  using assms by (simp add: trigger_automation_def)

theorem trigger_automation_refused_witness:
  "trigger_automation recording_env ''auto_1700000000'' None
      (snd (disable_automation ''auto_1700000000'' sample_engine)) start_world
     = (Error ''Automation is disabled'',
        snd (disable_automation ''auto_1700000000'' sample_engine), start_world)
   \<and> trigger_automation recording_env ''auto_1700000000'' (Some [(''work_mode'', PBool False)])
      sample_engine start_world
     = (Error ''Automation conditions not met'', sample_engine, start_world)"
proof -
  have d: "\<not> enabled (sample_automation\<lparr>enabled := False\<rparr>)" by simp
  have c: "enabled sample_automation \<and> \<not> check_conditions (conditions sample_automation)
             (context_or_empty (Some [(''work_mode'', PBool False)]))"
    by (simp add: sample_automation_def check_conditions_def context_or_empty_def dict_get_def)
  from trigger_automation_refused[OF sample_disabled_lookup, of recording_env None start_world] d
       trigger_automation_refused[OF sample_lookup, of recording_env
          "Some [(''work_mode'', PBool False)]" start_world] c
  show ?thesis by blast
qed

text \<open>
  Claim C1, as stated, fails: the sample automation is enabled and its conditions are
  met, its second action fails, so the specification's formula gives the success rate
  \<open>(1 * 0 + 0) / (0 + 1) = 0\<close>; the stored success rate is still \<open>1\<close> after the run.
\<close>

theorem trigger_success_rate_counterexample:
  "enabled sample_automation
   \<and> check_conditions (conditions sample_automation)
        (context_or_empty (Some [(''work_mode'', PBool True)]))
   \<and> trigger_automation recording_env ''auto_1700000000'' (Some [(''work_mode'', PBool True)])
        sample_engine start_world =
       (Ran \<lparr>automation_id = ''auto_1700000000'', automation_name = ''Morning'',
             executed_at = 1700000000000000,
             results = [Succeeded ''create_task'' ok_reply,
                        Failed ''update_task'' (Raised ''no such task''),
                        Succeeded ''send_message'' ok_reply]\<rparr>,
        \<lparr>automations = [(''auto_1700000000'',
            sample_automation\<lparr>last_run := Some 1700000000000001, run_count := 1\<rparr>)], jobs = []\<rparr>,
        (1700000000000002,
         [CreateTask (PStr ''Plan your day'') (PStr []) (PStr ''medium'') PNone (PStr ''auto''),
          UpdateTask (PStr ''{task_id}'') (PDict []),
          Sleep (PInt 30),
          SendMessage (PStr ''Good morning'') (PStr ''self'') (PStr ''slack'')]))
   \<and> success_rate (sample_automation\<lparr>last_run := Some 1700000000000001, run_count := 1\<rparr>) = 1
   \<and> spec_success_rate (success_rate sample_automation) (run_count sample_automation)
        (run_succeeded [Succeeded ''create_task'' ok_reply,
                        Failed ''update_task'' (Raised ''no such task''),
                        Succeeded ''send_message'' ok_reply]) = 0"
  by (simp add: trigger_automation_def sample_engine_def check_conditions_def context_or_empty_def
      dict_get_def execute_automation_def sample_automation_def three_actions_def run_action_def
      try_action_def execute_action_def recording_env_def replace_placeholders_def
      dict_getitem_def start_world_def spec_success_rate_def run_succeeded_def)

text \<open>
  Claim C1, amended. For a stored automation that is enabled and whose conditions are
  met, a manual trigger executes the actions and returns their run result, then sets
  last-run to the clock reading taken after the run and increases the run count by
  exactly one; the success rate keeps its value, and no job is touched.
\<close>

theorem trigger_automation_runs:
  assumes "map_of (automations st) aid = Some a"
      and "enabled a"
      and "check_conditions (conditions a) (context_or_empty context)"
  shows "fst (trigger_automation env aid context st w)
           = Ran (fst (execute_automation env a (context_or_empty context) w))
       \<and> snd (snd (trigger_automation env aid context st w))
           = snd (now env (snd (execute_automation env a (context_or_empty context) w)))
       \<and> jobs (fst (snd (trigger_automation env aid context st w))) = jobs st
       \<and> (\<exists>a'. map_of (automations (fst (snd (trigger_automation env aid context st w)))) aid
                  = Some a'
              \<and> last_run a' =
                  Some (fst (now env (snd (execute_automation env a (context_or_empty context) w))))
              \<and> run_count a' = run_count a + 1
              \<and> success_rate a' = success_rate a)"
  using assms by (simp add: trigger_automation_def AList.update_conv' split: prod.splits)

theorem trigger_automation_runs_witness:
  "map_of (automations sample_engine) ''auto_1700000000'' = Some sample_automation
   \<and> enabled sample_automation
   \<and> check_conditions (conditions sample_automation)
        (context_or_empty (Some [(''work_mode'', PBool True)]))
   \<and> (\<exists>a'. map_of (automations (fst (snd (trigger_automation recording_env ''auto_1700000000''
                 (Some [(''work_mode'', PBool True)]) sample_engine start_world))))
               ''auto_1700000000'' = Some a'
          \<and> run_count a' = 1 \<and> success_rate a' = 1)"
proof -
  have g1: "enabled sample_automation" and
       g2: "check_conditions (conditions sample_automation)
              (context_or_empty (Some [(''work_mode'', PBool True)]))"
    using sample_conditions_met by simp_all
  from trigger_automation_runs[OF sample_lookup g1 g2, of recording_env start_world]
  obtain a' where
    "map_of (automations (fst (snd (trigger_automation recording_env ''auto_1700000000''
        (Some [(''work_mode'', PBool True)]) sample_engine start_world)))) ''auto_1700000000''
       = Some a'"
    and "run_count a' = run_count sample_automation + 1"
    and "success_rate a' = success_rate sample_automation"
    by blast
  moreover have "run_count sample_automation = 0" "success_rate sample_automation = 1"
    by (simp_all add: sample_automation_def)
  ultimately show ?thesis using sample_lookup g1 g2 by auto
qed

section \<open>Conditions\<close>

text \<open>
  Claim C4, as stated, fails: a name the evaluator does not know is skipped, so a list
  holding only such a name is met.
\<close>

theorem check_conditions_unknown_counterexample:
  "check_conditions [''no_such_condition''] [] = True"
  by (simp add: check_conditions_def)

lemma check_each_iff:
  "check_each cs ctx \<longleftrightarrow>
     (\<forall>c \<in> set cs.
        (c = ''work_mode'' \<longrightarrow> truthy (dict_get ctx ''work_mode'' (PBool False)))
      \<and> (c = ''personal_mode'' \<longrightarrow> truthy (dict_get ctx ''personal_mode'' (PBool False)))
      \<and> c \<noteq> ''upcoming_meeting'')"
  by (induction cs) (auto simp: has_upcoming_meeting_def)

text \<open>
  Claim C4, amended. The empty list is met. Otherwise the result is the conjunction
  over the names the evaluator knows: \<open>work_mode\<close> and \<open>personal_mode\<close> hold when the
  context's entry of that name is truthy (absent counts as false), \<open>upcoming_meeting\<close>
  never holds; every other name is treated as met.
\<close>

theorem check_conditions_iff:
  "check_conditions [] ctx
   \<and> (check_conditions cs ctx \<longleftrightarrow>
     (\<forall>c \<in> set cs.
        (c = ''work_mode'' \<longrightarrow> truthy (dict_get ctx ''work_mode'' (PBool False)))
      \<and> (c = ''personal_mode'' \<longrightarrow> truthy (dict_get ctx ''personal_mode'' (PBool False)))
      \<and> c \<noteq> ''upcoming_meeting''))"
  by (cases cs) (simp_all add: check_conditions_def check_each_iff del: check_each.simps)

theorem check_conditions_iff_witness:
  "check_conditions [''work_mode'', ''no_such_condition''] [(''work_mode'', PInt 1)]
   \<and> \<not> check_conditions [''no_such_condition'', ''personal_mode''] [(''work_mode'', PInt 1)]
   \<and> \<not> check_conditions [''upcoming_meeting''] []"
  using check_conditions_iff[of "[(''work_mode'', PInt 1)]" "[''work_mode'', ''no_such_condition'']"]
        check_conditions_iff[of "[(''work_mode'', PInt 1)]" "[''no_such_condition'', ''personal_mode'']"]
        check_conditions_iff[of "[]" "[''upcoming_meeting'']"]
  by (simp add: dict_get_def)

section \<open>Scheduling\<close>

text \<open>The clock readings of the examples, all within one second, and a reading in the
  year 2514 whose double is rounded up to the next second.\<close>

lemma timestamp_int_examples:
  "timestamp_int 1700000000000000 = 1700000000"
  "timestamp_int 1700000000000002 = 1700000000"
  "timestamp_int 17179869184999999 = 17179869185"
  by code_simp+

lemma str_int_1700000000: "str_int 1700000000 = ''1700000000''"
  by (simp add: str_int_def digit_char_def)

lemma str_int_example:
  "str_int (timestamp_int 1700000000000000) = ''1700000000''"
  "str_int (timestamp_int 1700000000000002) = ''1700000000''"
  by (simp_all only: timestamp_int_examples str_int_1700000000)

text \<open>
  Claim C2, as stated, fails: creating a time-based automation with the well-formed
  five-field expression \<^verbatim>\<open>30 9 * * *\<close> succeeds and arms no timer.
\<close>

theorem schedule_general_cron_counterexample:
  "fst (create_automation recording_env ''Report'' (time_trigger ''30 9 * * *'') [] None
          empty_engine start_world)
     = Inr (Created ''auto_1700000000'' ''Report'' ''created''
              (''Automation '' @ quoted ''Report'' @ '' created successfully''))
   \<and> jobs (fst (snd (create_automation recording_env ''Report'' (time_trigger ''30 9 * * *'') []
          None empty_engine start_world))) = []"
  by (simp add: create_automation_def recording_env_def start_world_def str_int_example
      parse_trigger_def time_trigger_def dict_getitem_def dict_get_def TriggerType_of_def
      schedule_automation_def empty_engine_def Let_def quoted_def)

text \<open>
  Claim C2, amended. The schedule string of a time-based automation is compared with
  four literal strings (\<^verbatim>\<open>0 8 * * *\<close>, \<^verbatim>\<open>0 18 * * *\<close>, \<^verbatim>\<open>0 */2 * * *\<close>, \<^verbatim>\<open>15 * * * *\<close>).
  Scheduling one of them appends exactly one recurring job, tagged with the
  automation's id; scheduling any other string, well-formed or not, changes nothing.
\<close>

theorem schedule_automation_literals:
  assumes "trigger_type (trigger a) = TIME_BASED"
  shows "(recognised_schedule (trigger_condition (trigger a)) \<longrightarrow>
            (\<exists>j. jobs (schedule_automation a st) = jobs st @ [j]
                \<and> job_tags j = [auto_id a] \<and> job_automation j = a)
            \<and> automations (schedule_automation a st) = automations st)
       \<and> (\<not> recognised_schedule (trigger_condition (trigger a)) \<longrightarrow>
            schedule_automation a st = st)"
  using assms
  by (auto simp: schedule_automation_def recognised_schedule_def schedule_do_def Let_def)

theorem schedule_automation_literals_witness:
  "trigger_type (trigger (timed_automation ''0 */2 * * *'')) = TIME_BASED
   \<and> recognised_schedule (trigger_condition (trigger (timed_automation ''0 */2 * * *'')))
   \<and> map job_tags (jobs (schedule_automation (timed_automation ''0 */2 * * *'') empty_engine))
        = [[''auto_1700000000'']]
   \<and> \<not> recognised_schedule (trigger_condition (trigger (timed_automation ''*/5 * * * *'')))
   \<and> schedule_automation (timed_automation ''*/5 * * * *'') empty_engine = empty_engine"
proof -
  have t: "trigger_type (trigger (timed_automation c)) = TIME_BASED" for c
    by (simp add: timed_automation_def)
  have r: "recognised_schedule (trigger_condition (trigger (timed_automation ''0 */2 * * *'')))"
    by (simp add: timed_automation_def recognised_schedule_def)
  have n: "\<not> recognised_schedule (trigger_condition (trigger (timed_automation ''*/5 * * * *'')))"
    by (simp add: timed_automation_def recognised_schedule_def)
  from schedule_automation_literals[OF t, of "''0 */2 * * *''" empty_engine] r
  obtain j where
    "jobs (schedule_automation (timed_automation ''0 */2 * * *'') empty_engine)
       = jobs empty_engine @ [j]"
    and "job_tags j = [auto_id (timed_automation ''0 */2 * * *'')]" by blast
  then have "map job_tags (jobs (schedule_automation (timed_automation ''0 */2 * * *'') empty_engine))
        = [[''auto_1700000000'']]"
    by (simp add: empty_engine_def timed_automation_def sample_automation_def)
  moreover from schedule_automation_literals[OF t, of "''*/5 * * * *''" empty_engine] n
  have "schedule_automation (timed_automation ''*/5 * * * *'') empty_engine = empty_engine"
    by blast
  ultimately show ?thesis using t r n by blast
qed

text \<open>
  Claim C3 against the code. The daily automation carries the condition \<open>work_mode\<close>;
  its job fires with the empty context, under which that condition is unmet. The job
  nevertheless runs the action (the task is created), and afterwards the stored
  automation still has run count \<open>0\<close> and no last-run: the scheduled path neither
  checks the conditions nor records the run, as \<open>trigger_automation\<close> does.
\<close>

theorem scheduled_run_unchecked:
  "map (\<lambda>j. (job_tags j, conditions (job_automation j))) (jobs morning_engine)
      = [([''auto_1700000000''], [''work_mode''])]
   \<and> \<not> check_conditions [''work_mode''] []
   \<and> run_pending recording_env (jobs morning_engine) morning_engine (1700035200000000, [])
      = (morning_engine,
         (1700035200000001,
          [CreateTask (PStr ''Plan your day'') (PStr []) (PStr ''high'') PNone (PStr ''auto'')]))
   \<and> map (\<lambda>(k, a). (k, enabled a, run_count a, last_run a)) (automations morning_engine)
      = [(''auto_1700000000'', True, 0, None)]"
  by (simp add: morning_engine_def create_automation_def recording_env_def start_world_def
      str_int_example parse_trigger_def parse_action_def time_trigger_def plan_task_request_def
      dict_getitem_def dict_get_def TriggerType_of_def ActionType_of_def
      schedule_automation_def schedule_do_def empty_engine_def check_conditions_def run_job_def
      execute_automation_def run_action_def try_action_def execute_action_def
      replace_placeholders_def Let_def)


section \<open>Creation\<close>

lemma create_automation_unfold:
  "create_automation env name trig acts conds st w =
     (case parse_trigger trig of
        Inl e \<Rightarrow> (Inl e, st, snd (now env w))
      | Inr tg \<Rightarrow>
         (case parse_actions acts of
            Inl e \<Rightarrow> (Inl e, st, snd (now env w))
          | Inr as \<Rightarrow>
             (Inr (Created (new_id env w) name ''created''
                     (''Automation '' @ quoted name @ '' created successfully'')),
              (let a = new_automation (new_id env w) name tg as conds
                         (fst (now env (snd (now env w))));
                   st1 = st\<lparr>automations := AList.update (new_id env w) a (automations st)\<rparr>
               in if trigger_type tg = TIME_BASED then schedule_automation a st1 else st1),
              snd (now env (snd (now env w))))))"
  by (simp add: create_automation_def new_id_def new_automation_def Let_def
           split: prod.splits sum.splits)

lemma parse_trigger_unknown: "unknown_trigger_kind trig \<Longrightarrow> isl (parse_trigger trig)"
  by (auto simp: unknown_trigger_kind_def parse_trigger_def dict_getitem_def isl_def
           split: option.splits sum.splits)

lemma parse_action_unknown: "unknown_action_kind d \<Longrightarrow> isl (parse_action d)"
  by (auto simp: unknown_action_kind_def parse_action_def dict_getitem_def isl_def
           split: option.splits sum.splits)

lemma parse_actions_unknown:
  "\<exists>d \<in> set acts. unknown_action_kind d \<Longrightarrow> isl (parse_actions acts)"
proof (induction acts)
  case Nil
  then show ?case by simp
next
  case (Cons d acts)
  show ?case
  proof (cases "parse_action d")
    case (Inl e)
    then show ?thesis by simp
  next
    case (Inr a)
    then have "\<not> unknown_action_kind d" using parse_action_unknown[of d] by auto
    with Cons.prems have "\<exists>d \<in> set acts. unknown_action_kind d" by simp
    from Cons.IH[OF this] Inr show ?thesis by (auto simp: isl_def)
  qed
qed

lemma create_automation_reply:
  assumes "fst (create_automation env name trig acts conds st w) = Inr r"
  shows "r = Created (new_id env w) name ''created''
               (''Automation '' @ quoted name @ '' created successfully'')"
  using assms by (auto simp: create_automation_unfold split: sum.splits)

lemma automations_schedule_automation [simp]:
  "automations (schedule_automation a st) = automations st"
  by (simp add: schedule_automation_def schedule_do_def Let_def)

lemma schedule_automation_recognised:
  "trigger_type (trigger a) = TIME_BASED \<Longrightarrow>
   recognised_schedule (trigger_condition (trigger a)) \<Longrightarrow>
     \<exists>j. jobs (schedule_automation a st) = jobs st @ [j]
        \<and> job_tags j = [auto_id a] \<and> job_automation j = a"
  by (auto simp: schedule_automation_def recognised_schedule_def schedule_do_def Let_def)

lemma schedule_automation_unrecognised:
  "\<not> recognised_schedule (trigger_condition (trigger a)) \<Longrightarrow> schedule_automation a st = st"
  by (auto simp: schedule_automation_def recognised_schedule_def Let_def)

lemma morning_create:
  "create_automation recording_env ''Morning'' (time_trigger ''0 8 * * *'')
       [plan_task_request] (Some [''work_mode'']) empty_engine start_world
   = (Inr (Created ''auto_1700000000'' ''Morning'' ''created''
              (''Automation '' @ quoted ''Morning'' @ '' created successfully'')),
      \<lparr>automations = [(''auto_1700000000'', morning_automation)],
       jobs = [\<lparr>job_interval = 1, job_unit = Days, job_at_time = Some ''08:00'',
                job_automation = morning_automation, job_tags = [''auto_1700000000'']\<rparr>]\<rparr>,
      (1700000000000002, []))"
  by (simp add: create_automation_unfold parse_trigger_def time_trigger_def
      dict_getitem_def dict_get_def TriggerType_of_def ActionType_of_def parse_action_def
      plan_task_request_def recording_env_def start_world_def new_id_def str_int_example Let_def empty_engine_def morning_automation_def
      schedule_automation_def schedule_do_def new_automation_def)

lemma morning_engine_eq:
  "morning_engine =
     \<lparr>automations = [(''auto_1700000000'', morning_automation)],
      jobs = [\<lparr>job_interval = 1, job_unit = Days, job_at_time = Some ''08:00'',
               job_automation = morning_automation, job_tags = [''auto_1700000000'']\<rparr>]\<rparr>"
  by (simp add: morning_engine_def morning_create)

lemma morning_facts:
  "map_of (automations morning_engine) ''auto_1700000000'' = Some morning_automation"
  "auto_id morning_automation = ''auto_1700000000''"
  "trigger_type (trigger morning_automation) = TIME_BASED"
  "recognised_schedule (trigger_condition (trigger morning_automation))"
  by (simp_all add: morning_engine_eq morning_automation_def new_automation_def
        recognised_schedule_def)

text \<open>
  Claim C5, as stated, fails: with a trigger kind or an action kind outside the enums
  the call does not return an error reply, it raises \<^verbatim>\<open>ValueError\<close> to its caller.
\<close>

theorem create_unknown_kind_counterexample:
  "create_automation recording_env ''Launch'' bogus_trigger [plan_task_request] None
       empty_engine start_world
     = (Inl (ValueError (PStr ''bogus'')), empty_engine, (1700000000000001, []))
   \<and> create_automation recording_env ''Launch'' manual_trigger [plan_task_request, rocket_request]
       None empty_engine start_world
     = (Inl (ValueError (PStr ''launch_rocket'')), empty_engine, (1700000000000001, []))"
  by (simp add: create_automation_unfold parse_trigger_def bogus_trigger_def manual_trigger_def
      dict_getitem_def dict_get_def TriggerType_of_def ActionType_of_def parse_action_def
      plan_task_request_def rocket_request_def recording_env_def start_world_def)

text \<open>
  Claim C5, amended. When the trigger kind or the kind of some action is no member of
  its enum, \<open>create_automation\<close> raises an exception to its caller (\<^verbatim>\<open>ValueError\<close> with
  the rejected value when the trigger kind is at fault) and stores nothing: the engine,
  catalog and jobs, is unchanged, and only the clock has been read once.
\<close>

theorem create_unknown_kind_raises:
  assumes "unknown_trigger_kind trig \<or> (\<exists>d \<in> set acts. unknown_action_kind d)"
  shows "(\<exists>e. create_automation env name trig acts conds st w = (Inl e, st, snd (now env w)))
       \<and> (\<forall>v. map_of trig ''type'' = Some v \<and> isl (TriggerType_of v) \<longrightarrow>
              fst (create_automation env name trig acts conds st w) = Inl (ValueError v))"
proof
  from assms have "isl (parse_trigger trig) \<or> isl (parse_actions acts)"
    using parse_trigger_unknown parse_actions_unknown by blast
  then show "\<exists>e. create_automation env name trig acts conds st w = (Inl e, st, snd (now env w))"
    by (auto simp: create_automation_unfold isl_def split: sum.splits)
next
  show "\<forall>v. map_of trig ''type'' = Some v \<and> isl (TriggerType_of v) \<longrightarrow>
              fst (create_automation env name trig acts conds st w) = Inl (ValueError v)"
    by (auto simp: create_automation_unfold parse_trigger_def dict_getitem_def
                   TriggerType_of_def isl_def
             split: option.splits sum.splits)
qed

theorem create_unknown_kind_raises_witness:
  "unknown_trigger_kind bogus_trigger
   \<and> (\<exists>e. create_automation recording_env ''Launch'' bogus_trigger [plan_task_request] None
             sample_engine start_world = (Inl e, sample_engine, (1700000000000001, [])))
   \<and> (\<exists>d \<in> set [plan_task_request, rocket_request]. unknown_action_kind d)
   \<and> (\<exists>e. create_automation recording_env ''Launch'' manual_trigger
             [plan_task_request, rocket_request] None sample_engine start_world
           = (Inl e, sample_engine, (1700000000000001, [])))"
proof -
  have t: "unknown_trigger_kind bogus_trigger"
    by (simp add: unknown_trigger_kind_def bogus_trigger_def TriggerType_of_def)
  have a: "\<exists>d \<in> set [plan_task_request, rocket_request]. unknown_action_kind d"
    by (simp add: unknown_action_kind_def rocket_request_def ActionType_of_def)
  have n: "snd (now recording_env start_world) = (1700000000000001, [])"
    by (simp add: recording_env_def start_world_def)
  from create_unknown_kind_raises[of bogus_trigger "[plan_task_request]" recording_env
         "''Launch''" None sample_engine start_world] t
       create_unknown_kind_raises[of manual_trigger "[plan_task_request, rocket_request]"
         recording_env "''Launch''" None sample_engine start_world] a
       n
  show ?thesis by auto
qed

text \<open>
  Claim C8 against the code. Two creations whose clock readings fall into the same
  second both succeed and both return the id \<open>auto_1700000000\<close>. The second replaces the
  first in the catalog, while the job of the first stays pending under the shared id.
  Deleting the automation now stored under that id, which is manual, clears no job:
  the catalog is empty and the job of the replaced automation is still there.
\<close>

theorem create_same_second_collision:
  "fst (create_automation recording_env ''First'' (time_trigger ''0 8 * * *'')
          [plan_task_request] None empty_engine start_world)
     = Inr (Created ''auto_1700000000'' ''First'' ''created''
              (''Automation '' @ quoted ''First'' @ '' created successfully''))
   \<and> fst (create_automation recording_env ''Second'' manual_trigger [] None
          (fst after_first) (snd after_first))
     = Inr (Created ''auto_1700000000'' ''Second'' ''created''
              (''Automation '' @ quoted ''Second'' @ '' created successfully''))
   \<and> map (\<lambda>(k, a). (k, auto_name a)) (automations (fst after_first))
       = [(''auto_1700000000'', ''First'')]
   \<and> map (\<lambda>(k, a). (k, auto_name a)) (automations (fst after_second))
       = [(''auto_1700000000'', ''Second'')]
   \<and> map (\<lambda>j. (job_tags j, auto_name (job_automation j))) (jobs (fst after_second))
       = [([''auto_1700000000''], ''First'')]
   \<and> automations (snd (delete_automation ''auto_1700000000'' (fst after_second))) = []
   \<and> map (\<lambda>j. (job_tags j, auto_name (job_automation j)))
        (jobs (snd (delete_automation ''auto_1700000000'' (fst after_second))))
       = [([''auto_1700000000''], ''First'')]"
  by (simp add: after_second_def after_first_def create_automation_unfold parse_trigger_def
      manual_trigger_def time_trigger_def dict_getitem_def dict_get_def TriggerType_of_def
      ActionType_of_def parse_action_def plan_task_request_def recording_env_def start_world_def
      new_id_def str_int_example new_automation_def Let_def empty_engine_def
      schedule_automation_def schedule_do_def delete_automation_def AList.delete_eq)

text \<open>
  Claim C10, as stated, fails in its second half: a time-based automation whose
  schedule is \<^verbatim>\<open>0 0 1 * *\<close> is created and enabled, and no job is registered for it.
\<close>

theorem create_unscheduled_counterexample:
  "fst (create_automation recording_env ''Report'' (time_trigger ''0 0 1 * *'') [] None
          empty_engine start_world)
     = Inr (Created ''auto_1700000000'' ''Report'' ''created''
              (''Automation '' @ quoted ''Report'' @ '' created successfully''))
   \<and> map (\<lambda>(k, a). (k, enabled a, trigger_type (trigger a), trigger_condition (trigger a)))
        (automations (report_engine ''0 0 1 * *''))
      = [(''auto_1700000000'', True, TIME_BASED, PStr ''0 0 1 * *'')]
   \<and> jobs (report_engine ''0 0 1 * *'') = []"
  by (simp add: report_engine_def create_automation_unfold parse_trigger_def time_trigger_def
      dict_getitem_def dict_get_def TriggerType_of_def recording_env_def start_world_def new_id_def
      str_int_example Let_def empty_engine_def
      schedule_automation_def new_automation_def)

text \<open>
  Claim C10, amended. Every successful creation stores the automation under the id it
  returns with \<open>enabled\<close> true (run count \<open>0\<close>, no last-run, success rate \<open>1\<close>): there is
  no way to create it disabled. When it is time-based and its schedule is one of the
  four recognised strings, one job tagged with its id is registered at once; otherwise
  the job list is unchanged.
\<close>

theorem create_automation_enabled:
  assumes "fst (create_automation env name trig acts conds st w) = Inr r"
  shows "\<exists>aid a m.
           r = Created aid name ''created'' m
         \<and> map_of (automations (fst (snd (create_automation env name trig acts conds st w)))) aid
             = Some a
         \<and> auto_id a = aid \<and> enabled a \<and> run_count a = 0 \<and> last_run a = None
         \<and> success_rate a = 1
         \<and> (trigger_type (trigger a) = TIME_BASED
              \<and> recognised_schedule (trigger_condition (trigger a)) \<longrightarrow>
             (\<exists>j. jobs (fst (snd (create_automation env name trig acts conds st w)))
                     = jobs st @ [j]
                 \<and> job_tags j = [aid] \<and> job_automation j = a))
         \<and> (\<not> (trigger_type (trigger a) = TIME_BASED
                 \<and> recognised_schedule (trigger_condition (trigger a))) \<longrightarrow>
             jobs (fst (snd (create_automation env name trig acts conds st w))) = jobs st)"
proof -
  from assms obtain tg as where
    tg: "parse_trigger trig = Inr tg" and as: "parse_actions acts = Inr as"
    by (auto simp: create_automation_unfold split: sum.splits)
  let ?a = "new_automation (new_id env w) name tg as conds (fst (now env (snd (now env w))))"
  let ?st1 = "st\<lparr>automations := AList.update (new_id env w) ?a (automations st)\<rparr>"
  let ?st' = "fst (snd (create_automation env name trig acts conds st w))"
  have st': "?st' = (if trigger_type tg = TIME_BASED then schedule_automation ?a ?st1 else ?st1)"
    using tg as by (simp add: create_automation_unfold Let_def)
  have r: "r = Created (new_id env w) name ''created''
               (''Automation '' @ quoted name @ '' created successfully'')"
    by (rule create_automation_reply[OF assms])
  have l: "map_of (automations ?st') (new_id env w) = Some ?a"
    by (simp add: st' AList.update_conv')
  have p: "auto_id ?a = new_id env w" "enabled ?a" "run_count ?a = 0" "last_run ?a = None"
       "success_rate ?a = 1" "trigger ?a = tg"
    by (simp_all add: new_automation_def)
  have j1: "trigger_type (trigger ?a) = TIME_BASED
              \<and> recognised_schedule (trigger_condition (trigger ?a)) \<longrightarrow>
             (\<exists>j. jobs ?st' = jobs st @ [j] \<and> job_tags j = [new_id env w]
                  \<and> job_automation j = ?a)"
    using schedule_automation_recognised[of ?a ?st1] p by (auto simp: st')
  have j2: "\<not> (trigger_type (trigger ?a) = TIME_BASED
                 \<and> recognised_schedule (trigger_condition (trigger ?a))) \<longrightarrow>
              jobs ?st' = jobs st"
    using schedule_automation_unrecognised[of ?a ?st1] p by (auto simp: st')
  from r l p j1 j2 show ?thesis by blast
qed

theorem create_automation_enabled_witness:
  "fst (create_automation recording_env ''Morning'' (time_trigger ''0 8 * * *'')
          [plan_task_request] (Some [''work_mode'']) empty_engine start_world)
     = Inr (Created ''auto_1700000000'' ''Morning'' ''created''
              (''Automation '' @ quoted ''Morning'' @ '' created successfully''))
   \<and> (\<exists>a. map_of (automations morning_engine) ''auto_1700000000'' = Some a \<and> enabled a
          \<and> trigger_type (trigger a) = TIME_BASED
          \<and> recognised_schedule (trigger_condition (trigger a))
          \<and> (\<exists>j. jobs morning_engine = jobs empty_engine @ [j]
                 \<and> job_tags j = [''auto_1700000000''] \<and> job_automation j = a))"
proof -
  let ?c = "create_automation recording_env ''Morning'' (time_trigger ''0 8 * * *'')
              [plan_task_request] (Some [''work_mode'']) empty_engine start_world"
  have h: "fst ?c = Inr (Created ''auto_1700000000'' ''Morning'' ''created''
              (''Automation '' @ quoted ''Morning'' @ '' created successfully''))"
    by (simp add: morning_create)
  have m: "fst (snd ?c) = morning_engine" by (simp add: morning_engine_def)
  from create_automation_enabled[OF h] obtain aid a where
    r: "aid = ''auto_1700000000''" and
    l: "map_of (automations (fst (snd ?c))) aid = Some a" and
    en: "enabled a" and
    j: "trigger_type (trigger a) = TIME_BASED
          \<and> recognised_schedule (trigger_condition (trigger a)) \<longrightarrow>
        (\<exists>j. jobs (fst (snd ?c)) = jobs empty_engine @ [j]
            \<and> job_tags j = [aid] \<and> job_automation j = a)"
    by auto
  from l r m morning_facts(1) have a: "a = morning_automation" by simp
  with j r m morning_facts en l
  have "\<exists>a. map_of (automations morning_engine) ''auto_1700000000'' = Some a \<and> enabled a
          \<and> trigger_type (trigger a) = TIME_BASED
          \<and> recognised_schedule (trigger_condition (trigger a))
          \<and> (\<exists>j. jobs morning_engine = jobs empty_engine @ [j]
                 \<and> job_tags j = [''auto_1700000000''] \<and> job_automation j = a)"
    by auto
  with h show ?thesis by (rule conjI)
qed

section \<open>Enabling, disabling and the pending timers\<close>

lemma count_tagged_clear: "count_tagged tag (schedule_clear tag st) = 0"
  by (simp add: count_tagged_def schedule_clear_def)

lemma count_tagged_schedule:
  "trigger_type (trigger a) = TIME_BASED \<Longrightarrow>
   count_tagged (auto_id a) (schedule_automation a st) =
     count_tagged (auto_id a) st
       + (if recognised_schedule (trigger_condition (trigger a)) then 1 else 0)"
  by (auto simp: count_tagged_def schedule_automation_def schedule_do_def
                 recognised_schedule_def Let_def)

lemma count_tagged_automations [simp]:
  "count_tagged tag (st\<lparr>automations := x\<rparr>) = count_tagged tag st"
  by (simp add: count_tagged_def)

text \<open>
  Claim C9, as stated, fails twice: an enabled time-based automation with the schedule
  \<^verbatim>\<open>*/5 * * * *\<close> has no pending timer, and enabling the already enabled daily
  automation leaves two timers where there was one.
\<close>

theorem enable_counterexample:
  "map (\<lambda>(k, a). (k, enabled a, trigger_type (trigger a)))
       (automations (report_engine ''*/5 * * * *''))
      = [(''auto_1700000000'', True, TIME_BASED)]
   \<and> count_tagged ''auto_1700000000'' (report_engine ''*/5 * * * *'') = 0
   \<and> map (\<lambda>(k, a). (k, enabled a, trigger_type (trigger a))) (automations morning_engine)
      = [(''auto_1700000000'', True, TIME_BASED)]
   \<and> count_tagged ''auto_1700000000'' morning_engine = 1
   \<and> count_tagged ''auto_1700000000''
        (snd (enable_automation ''auto_1700000000'' morning_engine)) = 2"
  by (simp add: report_engine_def create_automation_unfold parse_trigger_def time_trigger_def
      dict_getitem_def dict_get_def TriggerType_of_def recording_env_def start_world_def new_id_def
      str_int_example Let_def empty_engine_def
      schedule_automation_def schedule_do_def new_automation_def count_tagged_def
      morning_engine_eq morning_automation_def enable_automation_def)

text \<open>
  Claim C9, amended. For a stored time-based automation (stored under its own id):
  after \<open>disable_automation\<close> no job carries its id, after \<open>delete_automation\<close> none
  does, and after disable followed by enable exactly one job carries it when the
  schedule is one of the four recognised strings, and none otherwise.
\<close>

theorem timer_count:
  assumes "map_of (automations st) aid = Some a"
      and "auto_id a = aid"
      and "trigger_type (trigger a) = TIME_BASED"
  shows "count_tagged aid (snd (disable_automation aid st)) = 0
       \<and> count_tagged aid (snd (delete_automation aid st)) = 0
       \<and> count_tagged aid (snd (enable_automation aid (snd (disable_automation aid st))))
           = (if recognised_schedule (trigger_condition (trigger a)) then 1 else 0)"
proof -
  let ?d = "snd (disable_automation aid st)"
  let ?off = "a\<lparr>enabled := False\<rparr>"
  have d: "?d = schedule_clear aid (st\<lparr>automations := AList.update aid ?off (automations st)\<rparr>)"
    using assms by (simp add: disable_automation_def Let_def)
  have c0: "count_tagged aid ?d = 0" by (simp only: d count_tagged_clear)
  have del: "count_tagged aid (snd (delete_automation aid st)) = 0"
    using assms by (simp add: delete_automation_def Let_def count_tagged_clear)
  have l: "map_of (automations ?d) aid = Some ?off"
    by (simp add: d schedule_clear_def AList.update_conv')
  let ?on = "?off\<lparr>enabled := True\<rparr>"
  have e: "snd (enable_automation aid ?d) =
             schedule_automation ?on (?d\<lparr>automations := AList.update aid ?on (automations ?d)\<rparr>)"
    using l assms(3) by (simp add: enable_automation_def Let_def)
  have t: "trigger_type (trigger ?on) = TIME_BASED" using assms(3) by simp
  have "count_tagged aid (snd (enable_automation aid ?d))
          = count_tagged (auto_id ?on) (schedule_automation ?on
               (?d\<lparr>automations := AList.update aid ?on (automations ?d)\<rparr>))"
    using assms(2) by (simp only: e) simp
  also have "\<dots> = count_tagged (auto_id ?on)
                     (?d\<lparr>automations := AList.update aid ?on (automations ?d)\<rparr>)
                   + (if recognised_schedule (trigger_condition (trigger ?on)) then 1 else 0)"
    by (rule count_tagged_schedule[OF t])
  also have "\<dots> = (if recognised_schedule (trigger_condition (trigger a)) then 1 else 0)"
    using c0 assms(2) by simp
  finally show ?thesis using c0 del by simp
qed

theorem timer_count_witness:
  "map_of (automations morning_engine) ''auto_1700000000'' = Some morning_automation
   \<and> auto_id morning_automation = ''auto_1700000000''
   \<and> trigger_type (trigger morning_automation) = TIME_BASED
   \<and> count_tagged ''auto_1700000000''
        (snd (disable_automation ''auto_1700000000'' morning_engine)) = 0
   \<and> count_tagged ''auto_1700000000''
        (snd (delete_automation ''auto_1700000000'' morning_engine)) = 0
   \<and> count_tagged ''auto_1700000000''
        (snd (enable_automation ''auto_1700000000''
                (snd (disable_automation ''auto_1700000000'' morning_engine)))) = 1"
  using timer_count[OF morning_facts(1) morning_facts(2) morning_facts(3)] morning_facts
  by simp

end
